theory Spec2Isabelle
  imports Main
begin

section \<open>The command-line script \<^verbatim>\<open>ask.py\<close>\<close>

text \<open>
  The repository is one straight-line Python script. It builds an API client with a
  fixed key and base URL, checks the number of command-line arguments, prints a status
  line, calls \<^verbatim>\<open>client.chat.completions.create\<close> once inside a
  \<^verbatim>\<open>try\<close> block, and prints either the content of the first choice of the
  response or the text of the exception.

  The script is embedded as a function from the world the process runs in to what the
  process does: the ordered trace of its observable events (lines printed on standard
  output, calls of the client) and how it terminates. Strings are HOL strings; a
  character whose top bit is set stands for a character outside ASCII.

  The client library is not part of the repository. Building the client object is
  taken to have no observable effect, and all the library does below the one call of
  \<^verbatim>\<open>create\<close> (the HTTP requests it sends, the decoding of the answer) is summed
  up in what the world says about that call.

  \<^verbatim>\<open>print\<close> encodes its text with the encoding of \<^verbatim>\<open>sys.stdout\<close>, which the
  interpreter sets from the locale and the environment of the process, and raises
  \<^verbatim>\<open>UnicodeEncodeError\<close> when the text has a character the encoding lacks. The
  two prints after the call write text that came from the endpoint and can fail in
  this way. The usage line is ASCII, which every encoding has. The status line is ASCII
  around the model name; the model name is text of the command line, and standard
  output is taken to have the characters of the command line, so the status line is
  taken to print.
\<close>

subsection \<open>Python values and exceptions\<close>

text \<open>
  The class of a raised exception decides whether \<^verbatim>\<open>except Exception\<close> catches
  it. \<open>IndexError\<close>, \<open>AttributeError\<close> and \<open>TypeError\<close> are the classes the access
  \<^verbatim>\<open>response.choices[0].message.content\<close> can raise, \<open>UnicodeEncodeError\<close> is
  what \<^verbatim>\<open>print\<close> raises; \<open>ExceptionSubclass n\<close> is any other class named \<open>n\<close>
  that derives from \<^verbatim>\<open>Exception\<close> (the client library's connection, timeout and
  status errors are of this kind); \<open>BaseExceptionOnly n\<close> is a class that derives
  from \<^verbatim>\<open>BaseException\<close> but not from \<^verbatim>\<open>Exception\<close>
  (\<^verbatim>\<open>KeyboardInterrupt\<close>, \<^verbatim>\<open>SystemExit\<close>, \<^verbatim>\<open>GeneratorExit\<close>).
\<close>

datatype exc_class =
    IndexError
  | AttributeError
  | TypeError
  | UnicodeEncodeError
  | ExceptionSubclass string
  | BaseExceptionOnly string

text \<open>A raised exception: its class and the text \<^verbatim>\<open>str(e)\<close>.\<close>

datatype py_exc = Raised (exc_cls: exc_class) (exc_str: string)

fun is_Exception :: "exc_class \<Rightarrow> bool" where
  "is_Exception (BaseExceptionOnly n) = False"
| "is_Exception c = True"

text \<open>
  An attribute of a response object: not there at all, there with the value
  \<^verbatim>\<open>None\<close>, or there with a value.
\<close>

datatype 'a attr = Absent | IsNone | Val 'a

subsection \<open>Client, request and response\<close>

record client =
  api_key :: string
  base_url :: string

text \<open>
  The keyword arguments of the \<^verbatim>\<open>create\<close> call. Each message is a dictionary
  literal in the source, kept as an association list in the order it is written.
\<close>

record request =
  model :: string
  messages :: "(string \<times> string) list list"

record chat_message =
  content :: "string attr"

record choice =
  message :: "chat_message attr"

record response =
  choices :: "choice list attr"

subsection \<open>The world of one process execution\<close>

text \<open>
  The encoding of \<^verbatim>\<open>sys.stdout\<close>: the characters outside ASCII it has, and the
  text of the \<^verbatim>\<open>UnicodeEncodeError\<close> it raises for a string it cannot encode.
\<close>

record encoding =
  has_char :: "char \<Rightarrow> bool"
  error_text :: "string \<Rightarrow> string"

text \<open>
  \<open>argv\<close> is \<^verbatim>\<open>sys.argv\<close>, the program name first. \<open>sys_stdout\<close> is the
  encoding of standard output in this execution. \<open>create\<close> is what the call
  \<^verbatim>\<open>client.chat.completions.create\<close> does in this execution: it raises an
  exception or returns a response object. \<open>posts\<close> is the number of HTTP requests
  the client library sends to the endpoint while that call runs; the client is built
  with the library's default settings, under which the library sends a request again
  after a connection error or a retryable status.
\<close>

record world =
  argv :: "string list"
  sys_stdout :: encoding
  create :: "client \<Rightarrow> request \<Rightarrow> py_exc + response"
  posts :: "client \<Rightarrow> request \<Rightarrow> nat"

datatype event =
    Print string
  | Call client request

text \<open>
  \<open>Exit n\<close>: the process ends with code \<open>n\<close>. \<open>Unhandled e\<close>: the exception
  \<open>e\<close> reaches the top of the script; the interpreter writes a traceback to standard
  error and the process does not end with code 0 (the code is 1 for an instance of
  \<^verbatim>\<open>Exception\<close>).
\<close>

datatype exit_status =
    Exit nat
  | Unhandled py_exc

record outcome =
  trace :: "event list"
  status :: exit_status


fun stdout_of :: "event list \<Rightarrow> string list" where
  "stdout_of [] = []"
| "stdout_of (Print s # evs) = s # stdout_of evs"
| "stdout_of (Call c r # evs) = stdout_of evs"

fun requests_of :: "event list \<Rightarrow> (client \<times> request) list" where
  "requests_of [] = []"
| "requests_of (Print s # evs) = requests_of evs"
| "requests_of (Call c r # evs) = (c, r) # requests_of evs"

subsection \<open>Printing\<close>

definition is_ascii :: "char \<Rightarrow> bool" where
  "is_ascii c = (\<not> digit7 c)"

definition encodable :: "encoding \<Rightarrow> string \<Rightarrow> bool" where
  "encodable enc s = list_all (\<lambda>c. is_ascii c \<or> has_char enc c) s"

text \<open>
  \<^verbatim>\<open>print(s)\<close>: nothing is raised and the line is written, or the encoding of
  standard output lacks a character of \<open>s\<close>, \<^verbatim>\<open>UnicodeEncodeError\<close> is raised
  and nothing is written.
\<close>

definition print_raises :: "world \<Rightarrow> string \<Rightarrow> py_exc option" where
  "print_raises w s =
     (if encodable (sys_stdout w) s then None
      else Some (Raised UnicodeEncodeError (error_text (sys_stdout w) s)))"

subsection \<open>The script\<close>

text \<open>
  \<^verbatim>\<open>client = OpenAI(api_key="sk-litellm-master-key", base_url="http://localhost:4000")\<close>
\<close>

definition the_client :: client where
  "the_client = \<lparr>api_key = ''sk-litellm-master-key'', base_url = ''http://localhost:4000''\<rparr>"

text \<open>
  The expression \<^verbatim>\<open>response.choices[0].message.content\<close>, one access at a time,
  with the exception Python raises where an access fails. The objects are instances of
  the client library's classes \<^verbatim>\<open>ChatCompletion\<close>, \<^verbatim>\<open>Choice\<close> and
  \<^verbatim>\<open>ChatCompletionMessage\<close>. The value of the expression is a string or
  \<^verbatim>\<open>None\<close>.
\<close>

definition no_attribute :: "string \<Rightarrow> string \<Rightarrow> py_exc" where
  "no_attribute cls a =
     Raised AttributeError ([CHR 0x27] @ cls @ [CHR 0x27] @ '' object has no attribute ''
       @ [CHR 0x27] @ a @ [CHR 0x27])"

definition get_choices :: "response \<Rightarrow> py_exc + choice list option" where
  "get_choices r =
     (case choices r of
        Absent \<Rightarrow> Inl (no_attribute ''ChatCompletion'' ''choices'')
      | IsNone \<Rightarrow> Inr None
      | Val cs \<Rightarrow> Inr (Some cs))"

definition subscript0 :: "choice list option \<Rightarrow> py_exc + choice" where
  "subscript0 v =
     (case v of
        None \<Rightarrow> Inl (Raised TypeError ([CHR 0x27] @ ''NoneType'' @ [CHR 0x27] @ '' object is not subscriptable''))
      | Some [] \<Rightarrow> Inl (Raised IndexError ''list index out of range'')
      | Some (c # cs) \<Rightarrow> Inr c)"

definition get_message :: "choice \<Rightarrow> py_exc + chat_message option" where
  "get_message c =
     (case message c of
        Absent \<Rightarrow> Inl (no_attribute ''Choice'' ''message'')
      | IsNone \<Rightarrow> Inr None
      | Val m \<Rightarrow> Inr (Some m))"

definition get_content :: "chat_message option \<Rightarrow> py_exc + string option" where
  "get_content v =
     (case v of
        None \<Rightarrow> Inl (no_attribute ''NoneType'' ''content'')
      | Some m \<Rightarrow>
          (case content m of
             Absent \<Rightarrow> Inl (no_attribute ''ChatCompletionMessage'' ''content'')
           | IsNone \<Rightarrow> Inr None
           | Val s \<Rightarrow> Inr (Some s)))"

definition first_choice_content :: "response \<Rightarrow> py_exc + string option" where
  "first_choice_content r =
     (case get_choices r of
        Inl e \<Rightarrow> Inl e
      | Inr cs \<Rightarrow>
          (case subscript0 cs of
             Inl e \<Rightarrow> Inl e
           | Inr c \<Rightarrow>
               (case get_message c of
                  Inl e \<Rightarrow> Inl e
                | Inr m \<Rightarrow> get_content m)))"

text \<open>What \<^verbatim>\<open>print\<close> writes for a value that is a string or \<^verbatim>\<open>None\<close>.\<close>

fun py_str :: "string option \<Rightarrow> string" where
  "py_str None = ''None''"
| "py_str (Some s) = s"

text \<open>
  The body of the \<^verbatim>\<open>try\<close> block: the events it performs, and the exception
  that ended it, if one did. The call, the access and the print can each raise.
  \<^verbatim>\<open>
      response = client.chat.completions.create(
          model=model_name,
          messages=[{"role": "user", "content": user_prompt}])
      print(response.choices[0].message.content)
  \<close>
\<close>

definition the_request :: "string \<Rightarrow> string \<Rightarrow> request" where
  "the_request model_name user_prompt =
     \<lparr>model = model_name, messages = [[(''role'', ''user''), (''content'', user_prompt)]]\<rparr>"

definition try_body :: "world \<Rightarrow> string \<Rightarrow> string \<Rightarrow> event list \<times> py_exc option" where
  "try_body w model_name user_prompt =
     (let req = the_request model_name user_prompt in
      case create w the_client req of
        Inl e \<Rightarrow> ([Call the_client req], Some e)
      | Inr response \<Rightarrow>
          (case first_choice_content response of
             Inl e \<Rightarrow> ([Call the_client req], Some e)
           | Inr v \<Rightarrow>
               (case print_raises w (py_str v) of
                  Some e \<Rightarrow> ([Call the_client req], Some e)
                | None \<Rightarrow> ([Call the_client req, Print (py_str v)], None))))"

text \<open>
  The whole script. The client is built first; then
  \<^verbatim>\<open>
  if len(sys.argv) < 3:
      print("Usage: python ask.py <model_name> \"<your_prompt>\"")
      sys.exit(1)
  model_name = sys.argv[1]
  user_prompt = sys.argv[2]
  print(f"--- Querying Model: {model_name} ---")
  try: ...
  except Exception as e:
      print(f"An error occurred: {e}")
  \<close>
  An exception that is not an instance of \<^verbatim>\<open>Exception\<close> passes the handler and
  ends the process unhandled. The print in the handler is not protected: the exception
  it raises ends the process unhandled. A script that reaches its end exits with
  code 0.
\<close>

definition usage :: string where
  \<open>usage = ''Usage: python ask.py <model_name> "<your_prompt>"''\<close>

definition banner :: "string \<Rightarrow> string" where
  "banner model_name = ''--- Querying Model: '' @ model_name @ '' ---''"

definition error_line :: "py_exc \<Rightarrow> string" where
  "error_line e = ''An error occurred: '' @ exc_str e"

definition ask :: "world \<Rightarrow> outcome" where
  "ask w =
     (if length (argv w) < 3 then
        \<lparr>trace = [Print usage], status = Exit 1\<rparr>
      else
        let model_name = argv w ! 1;
            user_prompt = argv w ! 2;
            pre = Print (banner model_name)
        in case try_body w model_name user_prompt of
             (evs, None) \<Rightarrow> \<lparr>trace = pre # evs, status = Exit 0\<rparr>
           | (evs, Some e) \<Rightarrow>
               if is_Exception (exc_cls e) then
                 (case print_raises w (error_line e) of
                    None \<Rightarrow> \<lparr>trace = pre # evs @ [Print (error_line e)], status = Exit 0\<rparr>
                  | Some e' \<Rightarrow> \<lparr>trace = pre # evs, status = Unhandled e'\<rparr>)
               else
                 \<lparr>trace = pre # evs, status = Unhandled e\<rparr>)"


subsection \<open>Malformed responses\<close>

text \<open>
  A response whose list of choices is missing or empty, or whose first choice lacks
  the message, or whose message lacks the content: the attribute is not there, or it is
  there with the value \<^verbatim>\<open>None\<close>.
\<close>

definition malformed :: "response \<Rightarrow> bool" where
  "malformed r =
     (case choices r of
        Absent \<Rightarrow> True
      | IsNone \<Rightarrow> True
      | Val [] \<Rightarrow> True
      | Val (c # cs) \<Rightarrow>
          (case message c of
             Absent \<Rightarrow> True
           | IsNone \<Rightarrow> True
           | Val m \<Rightarrow> content m = Absent \<or> content m = IsNone))"

text \<open>
  The one malformed response on which no access fails: the first choice has a message
  whose \<^verbatim>\<open>content\<close> attribute is there with the value \<^verbatim>\<open>None\<close>.
\<close>

definition content_is_None :: "response \<Rightarrow> bool" where
  "content_is_None r =
     (case choices r of
        Val (c # cs) \<Rightarrow> (case message c of Val m \<Rightarrow> content m = IsNone | _ \<Rightarrow> False)
      | _ \<Rightarrow> False)"

subsection \<open>Sample executions\<close>

text \<open>
  Two encodings of standard output: one that has every character, and ASCII, which
  has none beyond its own; the latter is given the text of the error it raises in the
  execution at hand.
\<close>

definition utf_8_stdout :: encoding where
  "utf_8_stdout = \<lparr>has_char = (\<lambda>c. True), error_text = (\<lambda>s. ''surrogates not allowed'')\<rparr>"

definition ascii_stdout :: "string \<Rightarrow> encoding" where
  "ascii_stdout msg = \<lparr>has_char = (\<lambda>c. False), error_text = (\<lambda>s. msg)\<rparr>"

definition ascii_cannot_encode :: "string \<Rightarrow> string" where
  "ascii_cannot_encode position =
     [CHR 0x27] @ ''ascii'' @ [CHR 0x27] @ '' codec can'' @ [CHR 0x27]
       @ ''t encode character '' @ [CHR 0x27, CHR 0x5C] @ ''xe9'' @ [CHR 0x27]
       @ '' in position '' @ position @ '': ordinal not in range(128)''"

definition reply :: "string \<Rightarrow> response" where
  "reply s = \<lparr>choices = Val [\<lparr>message = Val \<lparr>content = Val s\<rparr>\<rparr>]\<rparr>"

definition world_hello :: world where
  "world_hello =
     \<lparr>argv = [''ask.py'', ''gpt-4'', ''Say hello''],
      sys_stdout = utf_8_stdout,
      create = (\<lambda>c r. Inr (reply ''hello'')),
      posts = (\<lambda>c r. 1)\<rparr>"



definition world_one_argument :: world where
  "world_one_argument =
     \<lparr>argv = [''ask.py'', ''gpt-4''],
      sys_stdout = utf_8_stdout,
      create = (\<lambda>c r. Inr (reply ''hello'')),
      posts = (\<lambda>c r. 1)\<rparr>"

definition world_refused :: world where
  "world_refused =
     \<lparr>argv = [''ask.py'', ''gpt-4'', ''Say hello''],
      sys_stdout = utf_8_stdout,
      create = (\<lambda>c r. Inl (Raised (ExceptionSubclass ''APIConnectionError'') ''Connection error.'')),
      posts = (\<lambda>c r. 1)\<rparr>"

definition world_no_choices :: world where
  "world_no_choices =
     \<lparr>argv = [''ask.py'', ''gpt-4'', ''Say hello''],
      sys_stdout = utf_8_stdout,
      create = (\<lambda>c r. Inr \<lparr>choices = Val []\<rparr>),
      posts = (\<lambda>c r. 1)\<rparr>"

text \<open>A reply whose message has no text: its content is \<^verbatim>\<open>None\<close>.\<close>

definition world_no_content :: world where
  "world_no_content =
     \<lparr>argv = [''ask.py'', ''gpt-4'', ''Say hello''],
      sys_stdout = utf_8_stdout,
      create = (\<lambda>c r. Inr \<lparr>choices = Val [\<lparr>message = Val \<lparr>content = IsNone\<rparr>\<rparr>]\<rparr>),
      posts = (\<lambda>c r. 1)\<rparr>"

text \<open>
  A reply with the letter e acute (character 233) in it, once on a standard output
  that has the character and once on an ASCII one.
\<close>

definition hello_accent :: string where
  "hello_accent = ''h'' @ [CHR 0xE9] @ ''llo''"


definition world_accent_ascii :: world where
  "world_accent_ascii =
     \<lparr>argv = [''ask.py'', ''gpt-4'', ''Say hello''],
      sys_stdout = ascii_stdout (ascii_cannot_encode ''1''),
      create = (\<lambda>c r. Inr (reply hello_accent)),
      posts = (\<lambda>c r. 1)\<rparr>"

text \<open>
  The endpoint rejects the key with a message that has the same letter in it, on an
  ASCII standard output.
\<close>

definition key_rejected :: py_exc where
  "key_rejected =
     Raised (ExceptionSubclass ''AuthenticationError'') (''Cl'' @ [CHR 0xE9] @ '' invalide'')"

definition world_key_rejected :: world where
  "world_key_rejected =
     \<lparr>argv = [''ask.py'', ''gpt-4'', ''Say hello''],
      sys_stdout = ascii_stdout (ascii_cannot_encode ''21''),
      create = (\<lambda>c r. Inl key_rejected),
      posts = (\<lambda>c r. 1)\<rparr>"


section \<open>Properties\<close>

subsection \<open>What one run does, case by case\<close>

lemma length_tl_less_2: "length (tl xs) < 2 \<longleftrightarrow> length xs < 3"
  by (cases xs) auto

lemma ask_usage:
  "length (argv w) < 3 \<Longrightarrow> ask w = \<lparr>trace = [Print usage], status = Exit 1\<rparr>"
  by (simp add: ask_def)

lemma print_raises_None: "encodable (sys_stdout w) s \<Longrightarrow> print_raises w s = None"
  by (simp add: print_raises_def)

text \<open>
  Every exception the access can raise is an instance of \<^verbatim>\<open>Exception\<close>, and its
  text is ASCII, so that the error line for it prints on every standard output.
\<close>

lemma first_choice_content_raises_Exception:
  "first_choice_content r = Inl e \<Longrightarrow> is_Exception (exc_cls e)"
  by (auto simp: first_choice_content_def get_choices_def subscript0_def get_message_def
      get_content_def no_attribute_def
      split: attr.splits option.splits list.splits sum.splits)

lemma first_choice_content_error_encodable:
  "first_choice_content r = Inl e \<Longrightarrow> encodable enc (error_line e)"
  by (auto simp: first_choice_content_def get_choices_def subscript0_def get_message_def
      get_content_def no_attribute_def error_line_def encodable_def is_ascii_def
      split: attr.splits option.splits list.splits sum.splits)

lemma encodable_None: "encodable enc (py_str None)"
  by (simp add: encodable_def is_ascii_def)

lemma ask_create_raises_caught:
  assumes "3 \<le> length (argv w)"
    and "create w the_client (the_request (argv w ! 1) (argv w ! 2)) = Inl e"
    and "is_Exception (exc_cls e)"
    and "encodable (sys_stdout w) (error_line e)"
  shows "ask w =
     \<lparr>trace = [Print (banner (argv w ! 1)),
               Call the_client (the_request (argv w ! 1) (argv w ! 2)),
               Print (error_line e)],
      status = Exit 0\<rparr>"
  using assms by (simp add: ask_def try_body_def Let_def print_raises_None)

lemma ask_access_raises:
  assumes "3 \<le> length (argv w)"
    and "create w the_client (the_request (argv w ! 1) (argv w ! 2)) = Inr r"
    and "first_choice_content r = Inl e"
  shows "ask w =
     \<lparr>trace = [Print (banner (argv w ! 1)),
               Call the_client (the_request (argv w ! 1) (argv w ! 2)),
               Print (error_line e)],
      status = Exit 0\<rparr>"
  using assms first_choice_content_raises_Exception [OF assms(3)]
    first_choice_content_error_encodable [OF assms(3), of "sys_stdout w"]
  by (simp add: ask_def try_body_def Let_def print_raises_None)

lemma ask_success:
  assumes "3 \<le> length (argv w)"
    and "create w the_client (the_request (argv w ! 1) (argv w ! 2)) = Inr r"
    and "first_choice_content r = Inr v"
    and "encodable (sys_stdout w) (py_str v)"
  shows "ask w =
     \<lparr>trace = [Print (banner (argv w ! 1)),
               Call the_client (the_request (argv w ! 1) (argv w ! 2)),
               Print (py_str v)],
      status = Exit 0\<rparr>"
  using assms by (simp add: ask_def try_body_def Let_def print_raises_None)










text \<open>On a malformed response the access raises, unless it is the content that is \<^verbatim>\<open>None\<close>.\<close>

lemma malformed_raises:
  "malformed r \<Longrightarrow> \<not> content_is_None r \<Longrightarrow> \<exists>e. first_choice_content r = Inl e"
  by (auto simp: malformed_def content_is_None_def first_choice_content_def get_choices_def
      subscript0_def get_message_def get_content_def
      split: attr.splits option.splits list.splits sum.splits)

lemma content_is_None_value:
  "content_is_None r \<Longrightarrow> first_choice_content r = Inr None"
  by (auto simp: content_is_None_def first_choice_content_def get_choices_def
      subscript0_def get_message_def get_content_def
      split: attr.splits option.splits list.splits sum.splits)

subsection \<open>Specified behaviour\<close>

text \<open>
  C1. With fewer than two command-line arguments after the program name, the script
  prints the usage message on standard output and exits with code 1, and it calls the
  client not at all.
\<close>

theorem usage_on_missing_arguments:
  assumes "length (tl (argv w)) < 2"
  shows "stdout_of (trace (ask w)) = [usage]
       \<and> status (ask w) = Exit 1
       \<and> requests_of (trace (ask w)) = []"
proof -
  from assms have "length (argv w) < 3" by (simp add: length_tl_less_2)
  then show ?thesis by (simp add: ask_usage)
qed

theorem usage_on_missing_arguments_witness:
  \<open>length (tl (argv world_one_argument)) < 2
   \<and> stdout_of (trace (ask world_one_argument))
       = [''Usage: python ask.py <model_name> "<your_prompt>"'']
   \<and> status (ask world_one_argument) = Exit 1
   \<and> requests_of (trace (ask world_one_argument)) = []\<close>
  using usage_on_missing_arguments [of world_one_argument]
  by (simp add: world_one_argument_def usage_def)



text \<open>
  C3. With at least two arguments, a failure of the request and response cycle is
  caught. When the call raises an instance of \<^verbatim>\<open>Exception\<close> (as every
  connection, status and response error of the client is) and standard output can
  encode the error line, the script prints the status line and then
  \<open>An error occurred: \<close> followed by the text of the exception, and exits with
  code 0. When the call returns a malformed response other than one whose content is
  \<^verbatim>\<open>None\<close>, the access raises, and the script prints the status line and the
  error line for that exception, and exits with code 0.
\<close>

theorem encodable_failure_is_caught_and_reported:
  assumes "3 \<le> length (argv w)"
  shows "(\<forall>e. create w the_client (the_request (argv w ! 1) (argv w ! 2)) = Inl e
            \<and> is_Exception (exc_cls e)
            \<and> encodable (sys_stdout w) (''An error occurred: '' @ exc_str e)
          \<longrightarrow> stdout_of (trace (ask w)) =
                [''--- Querying Model: '' @ argv w ! 1 @ '' ---'',
                 ''An error occurred: '' @ exc_str e]
              \<and> status (ask w) = Exit 0)
       \<and> (\<forall>r. create w the_client (the_request (argv w ! 1) (argv w ! 2)) = Inr r
            \<and> malformed r \<and> \<not> content_is_None r
          \<longrightarrow> (\<exists>e. first_choice_content r = Inl e
                \<and> stdout_of (trace (ask w)) =
                    [''--- Querying Model: '' @ argv w ! 1 @ '' ---'',
                     ''An error occurred: '' @ exc_str e]
                \<and> status (ask w) = Exit 0))"
proof (rule conjI; intro allI impI)
  fix e
  assume "create w the_client (the_request (argv w ! 1) (argv w ! 2)) = Inl e
      \<and> is_Exception (exc_cls e)
      \<and> encodable (sys_stdout w) (''An error occurred: '' @ exc_str e)"
  then have "create w the_client (the_request (argv w ! 1) (argv w ! 2)) = Inl e"
    and "is_Exception (exc_cls e)"
    and "encodable (sys_stdout w) (error_line e)"
    by (simp_all add: error_line_def)
  from ask_create_raises_caught [OF assms this]
  show "stdout_of (trace (ask w)) =
      [''--- Querying Model: '' @ argv w ! 1 @ '' ---'', ''An error occurred: '' @ exc_str e]
    \<and> status (ask w) = Exit 0"
    by (simp add: banner_def error_line_def)
next
  fix r
  assume "create w the_client (the_request (argv w ! 1) (argv w ! 2)) = Inr r
      \<and> malformed r \<and> \<not> content_is_None r"
  then have r: "create w the_client (the_request (argv w ! 1) (argv w ! 2)) = Inr r"
    and "malformed r" and "\<not> content_is_None r"
    by simp_all
  then obtain e where e: "first_choice_content r = Inl e"
    using malformed_raises by blast
  from ask_access_raises [OF assms r e] e
  show "\<exists>e. first_choice_content r = Inl e
      \<and> stdout_of (trace (ask w)) =
          [''--- Querying Model: '' @ argv w ! 1 @ '' ---'', ''An error occurred: '' @ exc_str e]
      \<and> status (ask w) = Exit 0"
    by (intro exI [of _ e]) (simp add: banner_def error_line_def)
qed

theorem encodable_failure_is_caught_and_reported_witness:
  "3 \<le> length (argv world_refused)
   \<and> create world_refused the_client
        (the_request (argv world_refused ! 1) (argv world_refused ! 2))
      = Inl (Raised (ExceptionSubclass ''APIConnectionError'') ''Connection error.'')
   \<and> is_Exception (exc_cls (Raised (ExceptionSubclass ''APIConnectionError'') ''Connection error.''))
   \<and> encodable (sys_stdout world_refused) ''An error occurred: Connection error.''
   \<and> stdout_of (trace (ask world_refused)) =
        [''--- Querying Model: gpt-4 ---'', ''An error occurred: Connection error.'']
   \<and> status (ask world_refused) = Exit 0
   \<and> 3 \<le> length (argv world_no_choices)
   \<and> create world_no_choices the_client
        (the_request (argv world_no_choices ! 1) (argv world_no_choices ! 2))
      = Inr \<lparr>choices = Val []\<rparr>
   \<and> malformed \<lparr>choices = Val []\<rparr>
   \<and> \<not> content_is_None \<lparr>choices = Val []\<rparr>
   \<and> first_choice_content \<lparr>choices = Val []\<rparr> = Inl (Raised IndexError ''list index out of range'')
   \<and> stdout_of (trace (ask world_no_choices)) =
        [''--- Querying Model: gpt-4 ---'', ''An error occurred: list index out of range'']
   \<and> status (ask world_no_choices) = Exit 0"
  using encodable_failure_is_caught_and_reported [of world_refused]
    encodable_failure_is_caught_and_reported [of world_no_choices]
  by (simp add: world_refused_def world_no_choices_def utf_8_stdout_def encodable_def
      malformed_def content_is_None_def first_choice_content_def get_choices_def subscript0_def)

text \<open>
  Against C3 as it is worded: the endpoint rejects the key, the call raises an
  instance of \<^verbatim>\<open>Exception\<close>, and standard output is ASCII while the text of the
  exception is not. The print in the handler raises, the error line is not printed,
  and the process ends with the unhandled \<^verbatim>\<open>UnicodeEncodeError\<close>, not with
  code 0.
\<close>

theorem unencodable_failure_is_not_reported:
  "3 \<le> length (argv world_key_rejected)
   \<and> create world_key_rejected the_client
        (the_request (argv world_key_rejected ! 1) (argv world_key_rejected ! 2))
      = Inl key_rejected
   \<and> is_Exception (exc_cls key_rejected)
   \<and> stdout_of (trace (ask world_key_rejected)) = [''--- Querying Model: gpt-4 ---'']
   \<and> status (ask world_key_rejected) =
        Unhandled (Raised UnicodeEncodeError (ascii_cannot_encode ''21''))
   \<and> status (ask world_key_rejected) \<noteq> Exit 0"
  by (simp add: world_key_rejected_def key_rejected_def ask_def try_body_def Let_def
      print_raises_def encodable_def is_ascii_def ascii_stdout_def error_line_def banner_def)

text \<open>
  C4. With at least two arguments and a well-formed response (a first choice with a
  message whose content is a string) whose text standard output can encode, the script
  prints the status line and then exactly that string, and exits with code 0.
\<close>

theorem encodable_content_is_printed:
  assumes "3 \<le> length (argv w)"
    and "create w the_client (the_request (argv w ! 1) (argv w ! 2)) = Inr r"
    and "choices r = Val (c # cs)"
    and "message c = Val m"
    and "content m = Val s"
    and "encodable (sys_stdout w) s"
  shows "stdout_of (trace (ask w)) = [''--- Querying Model: '' @ argv w ! 1 @ '' ---'', s]
       \<and> status (ask w) = Exit 0"
proof -
  from assms(3-5) have "first_choice_content r = Inr (Some s)"
    by (simp add: first_choice_content_def get_choices_def subscript0_def get_message_def
        get_content_def)
  moreover from assms(6) have "encodable (sys_stdout w) (py_str (Some s))" by simp
  ultimately show ?thesis
    using ask_success [OF assms(1,2)] by (simp add: banner_def)
qed

theorem encodable_content_is_printed_witness:
  "3 \<le> length (argv world_hello)
   \<and> create world_hello the_client (the_request (argv world_hello ! 1) (argv world_hello ! 2))
      = Inr \<lparr>choices = Val [\<lparr>message = Val \<lparr>content = Val ''hello''\<rparr>\<rparr>]\<rparr>
   \<and> encodable (sys_stdout world_hello) ''hello''
   \<and> stdout_of (trace (ask world_hello)) = [''--- Querying Model: gpt-4 ---'', ''hello'']
   \<and> status (ask world_hello) = Exit 0"
  using encodable_content_is_printed
    [of world_hello "\<lparr>choices = Val [\<lparr>message = Val \<lparr>content = Val ''hello''\<rparr>\<rparr>]\<rparr>"
        "\<lparr>message = Val \<lparr>content = Val ''hello''\<rparr>\<rparr>" "[]"
        "\<lparr>content = Val ''hello''\<rparr>" "''hello''"]
  by (simp add: world_hello_def reply_def utf_8_stdout_def encodable_def)

text \<open>
  Against C4 as it is worded: a well-formed response whose text has a character that
  an ASCII standard output lacks. The print inside the \<^verbatim>\<open>try\<close> block raises, the
  handler catches the exception, and the line after the status line is the error line,
  not the text of the response.
\<close>

theorem unencodable_content_is_not_printed:
  "3 \<le> length (argv world_accent_ascii)
   \<and> create world_accent_ascii the_client
        (the_request (argv world_accent_ascii ! 1) (argv world_accent_ascii ! 2))
      = Inr \<lparr>choices = Val [\<lparr>message = Val \<lparr>content = Val hello_accent\<rparr>\<rparr>]\<rparr>
   \<and> stdout_of (trace (ask world_accent_ascii)) =
        [''--- Querying Model: gpt-4 ---'',
         ''An error occurred: '' @ ascii_cannot_encode ''1'']
   \<and> stdout_of (trace (ask world_accent_ascii)) \<noteq>
        [''--- Querying Model: gpt-4 ---'', hello_accent]
   \<and> status (ask world_accent_ascii) = Exit 0"
  by (simp add: world_accent_ascii_def reply_def hello_accent_def ask_def try_body_def Let_def
      print_raises_def encodable_def is_ascii_def ascii_stdout_def ascii_cannot_encode_def
      error_line_def banner_def first_choice_content_def get_choices_def subscript0_def
      get_message_def get_content_def the_request_def)








text \<open>
  C8. With at least two arguments and a malformed response returned by the call, the
  run exits with code 0 and prints one line after the status line. When the content of
  the first choice's message is \<^verbatim>\<open>None\<close>, the access raises nothing and the line
  is \<open>None\<close>. In every other case (the list of choices missing or empty, the message
  or the content attribute missing, the message \<^verbatim>\<open>None\<close>) the access raises an
  instance of \<^verbatim>\<open>Exception\<close>, the handler catches it, and the line is
  \<open>An error occurred: \<close> followed by the text of the exception.
\<close>

theorem malformed_response_outcome:
  assumes "3 \<le> length (argv w)"
    and "create w the_client (the_request (argv w ! 1) (argv w ! 2)) = Inr r"
    and "malformed r"
  shows "status (ask w) = Exit 0
       \<and> (if content_is_None r
          then stdout_of (trace (ask w)) = [banner (argv w ! 1), ''None'']
          else \<exists>e. first_choice_content r = Inl e
                 \<and> is_Exception (exc_cls e)
                 \<and> stdout_of (trace (ask w)) =
                     [banner (argv w ! 1), ''An error occurred: '' @ exc_str e])"
proof (cases "content_is_None r")
  case True
  from ask_success [OF assms(1,2) content_is_None_value [OF True] encodable_None] True
  show ?thesis by simp
next
  case False
  with assms(3) obtain e where e: "first_choice_content r = Inl e"
    using malformed_raises by blast
  from ask_access_raises [OF assms(1,2) e] first_choice_content_raises_Exception [OF e] e False
  show ?thesis by (simp add: error_line_def)
qed

theorem malformed_response_outcome_witness:
  "3 \<le> length (argv world_no_choices)
   \<and> create world_no_choices the_client
        (the_request (argv world_no_choices ! 1) (argv world_no_choices ! 2))
      = Inr \<lparr>choices = Val []\<rparr>
   \<and> malformed \<lparr>choices = Val []\<rparr>
   \<and> \<not> content_is_None \<lparr>choices = Val []\<rparr>
   \<and> first_choice_content \<lparr>choices = Val []\<rparr> = Inl (Raised IndexError ''list index out of range'')
   \<and> stdout_of (trace (ask world_no_choices)) =
        [''--- Querying Model: gpt-4 ---'', ''An error occurred: list index out of range'']
   \<and> status (ask world_no_choices) = Exit 0"
  using malformed_response_outcome [of world_no_choices "\<lparr>choices = Val []\<rparr>"]
  by (simp add: world_no_choices_def malformed_def content_is_None_def
      first_choice_content_def get_choices_def subscript0_def banner_def)

text \<open>
  Against C8 as it is worded: the first choice of the response has a message without
  text, its content is \<^verbatim>\<open>None\<close>. Nothing is raised, and the script prints
  \<open>None\<close> where the claim has the error line.
\<close>

theorem content_None_is_printed:
  "3 \<le> length (argv world_no_content)
   \<and> create world_no_content the_client
        (the_request (argv world_no_content ! 1) (argv world_no_content ! 2))
      = Inr \<lparr>choices = Val [\<lparr>message = Val \<lparr>content = IsNone\<rparr>\<rparr>]\<rparr>
   \<and> malformed \<lparr>choices = Val [\<lparr>message = Val \<lparr>content = IsNone\<rparr>\<rparr>]\<rparr>
   \<and> first_choice_content \<lparr>choices = Val [\<lparr>message = Val \<lparr>content = IsNone\<rparr>\<rparr>]\<rparr> = Inr None
   \<and> stdout_of (trace (ask world_no_content)) = [''--- Querying Model: gpt-4 ---'', ''None'']
   \<and> status (ask world_no_content) = Exit 0"
  by (simp add: world_no_content_def malformed_def ask_def try_body_def Let_def
      print_raises_def encodable_def is_ascii_def utf_8_stdout_def banner_def
      first_choice_content_def get_choices_def subscript0_def get_message_def get_content_def)






end
